theory Spec2Isabelle
  imports Main "HOL-Library.Word"
begin

unbundle bit_operations_syntax

section \<open>The discovery functions of setup.py\<close>

text \<open>
  The build script \<^verbatim>\<open>setup.py\<close> of PyQ locates a kdb+ installation, derives the
  platform code, reads the version of q, finds the Python shared library and passes the
  four values to its build and install commands. The functions are embedded here as HOL
  functions. What they read from the interpreter and the operating system (the platform
  name, \<^verbatim>\<open>sys.maxsize\<close>, \<^verbatim>\<open>os.path.join\<close>, the directories and files on disk, the
  output of external tools) is an explicit argument; every exception is a value
  \<open>Inl e\<close> of a sum type.
\<close>

subsection \<open>Exceptions\<close>

datatype error =
    RuntimeError string
  | KeyError string
  | OSError string
  | IndexError
  | ValueError
  | UnicodeDecodeError
  | CalledProcessError "string list"
  | CompileError
  | LinkError

subsection \<open>Strings, bytes and lists as Python has them\<close>

definition LF :: char where
  "LF = CHR 0x0A"


text \<open>\<^verbatim>\<open>s.startswith(p)\<close>, with the prefix first.\<close>

fun startswith :: "string \<Rightarrow> string \<Rightarrow> bool" where
  "startswith [] s = True"
| "startswith (p # ps) [] = False"
| "startswith (p # ps) (c # cs) = (p = c \<and> startswith ps cs)"


text \<open>
  \<^verbatim>\<open>for line in f\<close> on a text file: the content is cut after every newline, and each
  line keeps its newline. The content is the text as Python hands it over (after its
  newline translation).
\<close>

fun readlines :: "string \<Rightarrow> string list" where
  "readlines [] = []"
| "readlines (c # cs) =
     (if c = LF then [c] # readlines cs
      else (case readlines cs of [] \<Rightarrow> [[c]] | l # ls \<Rightarrow> (c # l) # ls))"



text \<open>The ASCII whitespace of \<^verbatim>\<open>bytes.split()\<close>.\<close>

definition is_space :: "char \<Rightarrow> bool" where
  "is_space c = (c \<in> set [CHR '' '', CHR 0x09, CHR 0x0A, CHR 0x0B, CHR 0x0C, CHR 0x0D])"



text \<open>\<^verbatim>\<open>s.split(sep)\<close> for a separator of one character: never an empty list.\<close>

fun split_on :: "char \<Rightarrow> string \<Rightarrow> string list" where
  "split_on sep [] = [[]]"
| "split_on sep (c # cs) =
     (if c = sep then [] # split_on sep cs
      else (case split_on sep cs of [] \<Rightarrow> [[c]] | l # ls \<Rightarrow> (c # l) # ls))"


text \<open>\<^verbatim>\<open>xs[i]\<close> for \<open>i \<ge> 0\<close> and \<^verbatim>\<open>xs[-1]\<close>: IndexError out of range.\<close>

definition item :: "'a list \<Rightarrow> nat \<Rightarrow> error + 'a" where
  "item xs i = (if i < length xs then Inr (xs ! i) else Inl IndexError)"


text \<open>\<^verbatim>\<open>'%d' % n\<close> and \<^verbatim>\<open>'{}'.format(n)\<close> for an integer that is not negative.\<close>

fun str_nat :: "nat \<Rightarrow> string" where
  "str_nat n =
     (if n < 10 then [''0123456789'' ! n]
      else str_nat (n div 10) @ [''0123456789'' ! (n mod 10)])"

text \<open>\<^verbatim>\<open>int.bit_length()\<close>: the number of binary digits of the absolute value.\<close>

fun bits_of :: "nat \<Rightarrow> nat" where
  "bits_of n = (if n = 0 then 0 else Suc (bits_of (n div 2)))"

definition bit_length :: "int \<Rightarrow> nat" where
  "bit_length x = bits_of (nat \<bar>x\<bar>)"

text \<open>The truth value of \<^verbatim>\<open>env.get(v)\<close>: \<^verbatim>\<open>None\<close> and the empty string are false.\<close>

fun truthy :: "string option \<Rightarrow> bool" where
  "truthy None = False"
| "truthy (Some s) = (s \<noteq> [])"

subsection \<open>The host and its file system\<close>

text \<open>
  What the script reads from the running interpreter: \<^verbatim>\<open>platform.system()\<close>,
  \<^verbatim>\<open>platform.machine()\<close>, \<^verbatim>\<open>sys.maxsize\<close>, \<^verbatim>\<open>sys.version_info[:2]\<close>, \<^verbatim>\<open>os.name\<close>,
  \<^verbatim>\<open>os.path.join\<close> and \<^verbatim>\<open>os.path.dirname\<close> of the platform, and the module's \<^verbatim>\<open>decode\<close>
  (the identity where \<^verbatim>\<open>str is bytes\<close>, \<^verbatim>\<open>bytes.decode\<close> otherwise, which can fail).
\<close>

record host =
  sysname :: string
  machine :: string
  maxsize :: int
  version_info :: "nat \<times> nat"
  os_name :: string
  path_join :: "string \<Rightarrow> string \<Rightarrow> string"
  path_dirname :: "string \<Rightarrow> string"
  decode :: "string \<Rightarrow> error + string"

text \<open>
  \<^verbatim>\<open>str.rstrip()\<close>. Where \<^verbatim>\<open>str is bytes\<close> (Python 2) it strips the ASCII whitespace;
  on Python 3 it strips every character for which \<^verbatim>\<open>str.isspace\<close> holds, which below
  256 are the ASCII whitespace, the separators \<^verbatim>\<open>0x1c\<close> to \<^verbatim>\<open>0x1f\<close>, \<^verbatim>\<open>0x85\<close> and \<^verbatim>\<open>0xa0\<close>.
  A character of a \<^verbatim>\<open>str\<close> is its code point, below 256.
\<close>

definition is_str_space :: "host \<Rightarrow> char \<Rightarrow> bool" where
  "is_str_space h c =
     (is_space c \<or>
      (3 \<le> fst (version_info h) \<and>
       c \<in> set [CHR 0x1C, CHR 0x1D, CHR 0x1E, CHR 0x1F, CHR 0x85, CHR 0xA0]))"

definition rstrip :: "host \<Rightarrow> string \<Rightarrow> string" where
  "rstrip h s = rev (dropWhile (is_str_space h) (rev s))"

text \<open>\<^verbatim>\<open>WINDOWS = platform.system() == 'Windows'\<close>\<close>

definition WINDOWS :: "host \<Rightarrow> bool" where
  "WINDOWS h = (sysname h = ''Windows'')"

text \<open>
  The file system: the directories that exist, the text files that can be opened for
  reading with their content, and the paths that cannot be opened for writing.
\<close>

record filesystem =
  dirs :: "string list"
  files :: "(string \<times> string) list"
  readonly :: "string list"

definition isdir :: "filesystem \<Rightarrow> string \<Rightarrow> bool" where
  "isdir fs p = (p \<in> set (dirs fs))"

definition open_r :: "filesystem \<Rightarrow> string \<Rightarrow> error + string" where
  "open_r fs p = (case map_of (files fs) p of None \<Rightarrow> Inl (OSError p) | Some content \<Rightarrow> Inr content)"

definition open_w :: "filesystem \<Rightarrow> string \<Rightarrow> string \<Rightarrow> error + filesystem" where
  "open_w fs p content =
     (if p \<in> set (readonly fs) then Inl (OSError p)
      else Inr (fs\<lparr>files := (p, content) # files fs\<rparr>))"

subsection \<open>get\_q\_home\<close>

text \<open>
  The loop \<^verbatim>\<open>for v in ['VIRTUAL_ENV', 'HOME']\<close>: the first prefix that is set, not empty
  and has an existing subdirectory \<^verbatim>\<open>q\<close> ends the loop with that subdirectory.
\<close>

fun prefix_loop :: "host \<Rightarrow> filesystem \<Rightarrow> (string \<rightharpoonup> string) \<Rightarrow> string list \<Rightarrow> string option" where
  "prefix_loop h fs env [] = None"
| "prefix_loop h fs env (v # vs) =
     (let prefix = env v in
      if truthy prefix then
        (case prefix of
           None \<Rightarrow> prefix_loop h fs env vs
         | Some p \<Rightarrow>
             (let q_home = path_join h p ''q'' in
              if isdir fs q_home then Some q_home else prefix_loop h fs env vs))
      else prefix_loop h fs env vs)"

text \<open>
  \<^verbatim>\<open>env['SystemDrive']\<close> is a subscript, not \<^verbatim>\<open>env.get\<close>: it raises KeyError when the
  variable is not set. The literal \<^verbatim>\<open>r'\q'\<close> is a backslash and a \<^verbatim>\<open>q\<close>.
\<close>

definition get_q_home :: "host \<Rightarrow> filesystem \<Rightarrow> (string \<rightharpoonup> string) \<Rightarrow> error + string" where
  "get_q_home h fs env =
     (let q_home = env ''QHOME'' in
      case (if truthy q_home then q_home else None) of
        Some q \<Rightarrow> Inr q
      | None \<Rightarrow>
          (case prefix_loop h fs env [''VIRTUAL_ENV'', ''HOME''] of
             Some q \<Rightarrow> Inr q
           | None \<Rightarrow>
               if WINDOWS h then
                 (case env ''SystemDrive'' of
                    None \<Rightarrow> Inl (KeyError ''SystemDrive'')
                  | Some drive \<Rightarrow>
                      (let q_home = path_join h drive (CHR 0x5C # ''q'') in
                       if isdir fs q_home then Inr q_home
                       else Inl (RuntimeError ''No suitable QHOME.'')))
               else Inl (RuntimeError ''No suitable QHOME.'')))"

subsection \<open>get\_q\_os\_letter and get\_q\_arch\<close>

definition get_q_os_letter :: "string \<Rightarrow> string \<Rightarrow> error + string" where
  "get_q_os_letter sysname' machine' =
     (if sysname' = ''Linux'' then Inr ''l''
      else if sysname' = ''SunOS'' then Inr (if machine' = ''i86pc'' then ''v'' else ''s'')
      else if sysname' = ''Darwin'' then Inr ''m''
      else if sysname' = ''Windows'' then Inr ''w''
      else Inl (RuntimeError (''\"Unknown platform: '' @ sysname' @ '' '' @ machine' @ ''.'')))"

definition get_q_arch :: "host \<Rightarrow> filesystem \<Rightarrow> string \<Rightarrow> error + string" where
  "get_q_arch h fs q_home =
     (let bits = bit_length (maxsize h + 1) in
      case get_q_os_letter (sysname h) (machine h) of
        Inl e \<Rightarrow> Inl e
      | Inr os_letter \<Rightarrow>
          (let x64dir = path_join h q_home (os_letter @ ''64'');
               bits = (if bits = 64 \<and> \<not> isdir fs x64dir then 32 else bits)
           in Inr (os_letter @ str_nat bits)))"

subsection \<open>get\_q\_version\<close>

text \<open>The loop over the lines of \<^verbatim>\<open>q.k\<close>, and the default after it.\<close>

fun scan_version :: "string list \<Rightarrow> string" where
  "scan_version [] = ''2.2''"
| "scan_version (line # lines) =
     (if startswith ''k:'' line then take 3 (drop 2 line) else scan_version lines)"

definition get_q_version :: "host \<Rightarrow> filesystem \<Rightarrow> string \<Rightarrow> error + string" where
  "get_q_version h fs q_home =
     (case open_r fs (path_join h q_home ''q.k'') of
        Inl e \<Rightarrow> Inl e
      | Inr content \<Rightarrow> Inr (scan_version (readlines content)))"

subsection \<open>Concrete hosts\<close>

text \<open>
  \<^verbatim>\<open>posixpath.join\<close> and \<^verbatim>\<open>posixpath.dirname\<close> for two components, and
  \<^verbatim>\<open>ntpath.join\<close> for a first component that is a drive (\<^verbatim>\<open>C:\<close>) or a relative
  path without one: enough for the hosts the examples run on. The theorems hold for
  every \<open>path_join\<close>.
\<close>

definition posix_join :: "string \<Rightarrow> string \<Rightarrow> string" where
  "posix_join a b =
     (if startswith ''/'' b then b
      else if a = [] \<or> last a = CHR ''/'' then a @ b
      else a @ ''/'' @ b)"

definition posix_dirname :: "string \<Rightarrow> string" where
  "posix_dirname p =
     (let head = rev (dropWhile (\<lambda>c. c \<noteq> CHR ''/'') (rev p)) in
      if head \<noteq> [] \<and> set head \<noteq> {CHR ''/''}
      then rev (dropWhile (\<lambda>c. c = CHR ''/'') (rev head)) else head)"

definition nt_join :: "string \<Rightarrow> string \<Rightarrow> string" where
  "nt_join a b =
     (let drive = (if length a \<ge> 2 \<and> a ! 1 = CHR '':'' then take 2 a else []);
          path = drop (length drive) a in
      if b \<noteq> [] \<and> (hd b = CHR 0x5C \<or> hd b = CHR ''/'') then drive @ b
      else if path \<noteq> [] \<and> last path \<noteq> CHR 0x5C \<and> last path \<noteq> CHR ''/''
        then drive @ path @ [CHR 0x5C] @ b
      else drive @ path @ b)"

definition linux64 :: host where
  "linux64 =
     \<lparr>sysname = ''Linux'', machine = ''x86_64'', maxsize = 9223372036854775807,
      version_info = (3, 6), os_name = ''posix'', path_join = posix_join,
      path_dirname = posix_dirname, decode = Inr\<rparr>"

definition windows64 :: host where
  "windows64 =
     \<lparr>sysname = ''Windows'', machine = ''AMD64'', maxsize = 9223372036854775807,
      version_info = (3, 6), os_name = ''nt'', path_join = nt_join,
      path_dirname = posix_dirname, decode = Inr\<rparr>"

definition no_fs :: filesystem where
  "no_fs = \<lparr>dirs = [], files = [], readonly = []\<rparr>"

definition no_env :: "string \<rightharpoonup> string" where
  "no_env = map_of []"

text \<open>A home directory with only the 32-bit kdb+, and three environments.\<close>

definition home_u_32 :: filesystem where
  "home_u_32 = \<lparr>dirs = [''/home/u/q'', ''/home/u/q/l32''], files = [], readonly = []\<rparr>"

definition home_env :: "string \<rightharpoonup> string" where
  "home_env = map_of [(''HOME'', ''/home/u'')]"

definition qhome_env :: "string \<rightharpoonup> string" where
  "qhome_env = map_of [(''QHOME'', ''/no/such/dir''), (''HOME'', ''/home/u'')]"

text \<open>A runtime home whose \<^verbatim>\<open>q.k\<close> has two lines that start with \<^verbatim>\<open>k:\<close>.\<close>

definition q_k_text :: string where
  "q_k_text = ''/ q.k'' @ [LF] @ ''k:3.6; bootstrap'' @ [LF] @ ''k:9.9'' @ [LF]"

definition home_u_qk :: filesystem where
  "home_u_qk = \<lparr>dirs = [''/home/u/q''], files = [(''/home/u/q/q.k'', q_k_text)], readonly = []\<rparr>"

subsection \<open>get\_python\_dll\<close>

text \<open>Sequencing of two steps that can raise.\<close>

definition and_then :: "error + 'a \<Rightarrow> ('a \<Rightarrow> error + 'b) \<Rightarrow> error + 'b" where
  "and_then r f = (case r of Inl e \<Rightarrow> Inl e | Inr x \<Rightarrow> f x)"










subsection \<open>Config: the four values and the file written from them\<close>

text \<open>
  The options of the \<^verbatim>\<open>config\<close> command after \<^verbatim>\<open>finalize_options\<close>: the four values are
  set; \<open>write_flag\<close> is the option \<^verbatim>\<open>write\<close>.
\<close>

record Config =
  q_home :: string
  q_arch :: string
  q_version :: string
  python_dll :: string
  dest :: string
  write_flag :: bool
  extra_link_args :: "string list"

text \<open>\<^verbatim>\<open>SETUP_CFG.format(**vars(self))\<close>\<close>

definition SETUP_CFG :: "Config \<Rightarrow> string" where
  "SETUP_CFG self =
     ''[config]'' @ [LF] @
     ''q_home = '' @ q_home self @ [LF] @
     ''q_version = '' @ q_version self @ [LF] @
     ''q_arch = '' @ q_arch self @ [LF] @
     ''python_dll = '' @ python_dll self @ [LF]"

text \<open>
  \<^verbatim>\<open>Config.run\<close> on the file system and the list of announced messages. The command
  object is returned with the new state: \<^verbatim>\<open>run\<close> assigns to none of its attributes.
\<close>

definition Config_run ::
  "host \<Rightarrow> Config \<Rightarrow> filesystem \<times> string list \<Rightarrow>
   error + Config \<times> filesystem \<times> string list" where
  "Config_run h self st =
     (let setup_cfg = SETUP_CFG self;
          fs = fst st;
          announced = snd st @ [rstrip h setup_cfg]
      in
      if write_flag self then
        (case open_w fs (dest self) setup_cfg of
           Inl e \<Rightarrow> Inl e
         | Inr fs' \<Rightarrow> Inr (self, fs', announced @ [''^^^ Written to '' @ dest self @ ''.'']))
      else
        Inr (self, fs,
             announced @ [''^^^ Use --write options to write this to '' @ dest self @ ''.'']))"

text \<open>
  Modelled from the spec: the re-parsing of the persisted file, which setup.py does not
  contain. The spec describes the file as text in \<^verbatim>\<open>key = value\<close> line format with four
  fixed keys, so a line that starts with one of the four keys followed by \<^verbatim>\<open> = \<close> binds
  the key to the rest of the line, and every other line is skipped.
\<close>

definition cfg_keys :: "string list" where
  "cfg_keys = [''q_home'', ''q_version'', ''q_arch'', ''python_dll'']"

definition parse_line :: "string \<Rightarrow> (string \<times> string) option" where
  "parse_line l =
     (case find (\<lambda>k. startswith (k @ '' = '') l) cfg_keys of
        None \<Rightarrow> None
      | Some k \<Rightarrow> Some (k, drop (length k + 3) l))"

definition parse_cfg :: "string \<Rightarrow> (string \<rightharpoonup> string)" where
  "parse_cfg content = map_of (List.map_filter parse_line (split_on LF content))"

subsection \<open>The macros of the builders\<close>

text \<open>
  The end of \<^verbatim>\<open>BuildQExt.finalize_options\<close> and of \<^verbatim>\<open>BuildExe.finalize_options\<close>: the
  value of \<^verbatim>\<open>self.define\<close> afterwards, from its value before (\<open>None\<close> unless set) and the
  values taken from the \<^verbatim>\<open>config\<close> command.
\<close>

definition BuildQExt_define ::
  "(string \<times> string) list option \<Rightarrow> string \<Rightarrow> error + (string \<times> string) list" where
  "BuildQExt_define define' q_version' =
     (case define' of
        Some d \<Rightarrow> Inr d
      | None \<Rightarrow>
          (let split_version = split_on (CHR ''.'') q_version' in
           and_then (item split_version 0) (\<lambda>major.
           and_then (item split_version 1) (\<lambda>minor.
             Inr [(''KXVER'', major), (''KXVER2'', minor)]))))"

definition BuildExe_define ::
  "(string \<times> string) list option \<Rightarrow> string \<Rightarrow> string \<Rightarrow> error + (string \<times> string) list" where
  "BuildExe_define define' q_version' q_arch' =
     (case define' of
        Some d \<Rightarrow> Inr d
      | None \<Rightarrow>
          and_then (item q_version' 0) (\<lambda>c. Inr [(''KXVER'', [c]), (''QARCH'', q_arch')]))"

subsection \<open>InstallExe.run: the mode of the installed executables\<close>

text \<open>
  \<^verbatim>\<open>mode = ((os.stat(file)[ST_MODE]) | 0o555) & 0o7777\<close>, with \<^verbatim>\<open>0o555 = 365\<close> and
  \<^verbatim>\<open>0o7777 = 4095\<close>.
\<close>

definition exec_mode :: "int \<Rightarrow> int" where
  "exec_mode st_mode = (st_mode OR 365) AND 4095"

text \<open>
  \<^verbatim>\<open>os.chmod(file, mode)\<close> on the \<^verbatim>\<open>st_mode\<close> of a file: the twelve permission bits are
  replaced, the file type above them stays.
\<close>

definition chmod_mode :: "int \<Rightarrow> int \<Rightarrow> int" where
  "chmod_mode st_mode mode = (st_mode AND NOT 4095) OR (mode AND 4095)"

text \<open>
  The loop over the installed files on a POSIX system, on the table of the files'
  \<^verbatim>\<open>st_mode\<close>: \<^verbatim>\<open>os.stat\<close> raises for a file that is not there. A dry run changes
  nothing.
\<close>

fun chmod_outputs :: "bool \<Rightarrow> string list \<Rightarrow> (string \<rightharpoonup> int) \<Rightarrow> error + (string \<rightharpoonup> int)" where
  "chmod_outputs dry_run [] modes = Inr modes"
| "chmod_outputs dry_run (file # outputs) modes =
     (if dry_run then chmod_outputs dry_run outputs modes
      else
        (case modes file of
           None \<Rightarrow> Inl (OSError file)
         | Some st_mode \<Rightarrow>
             (let mode = exec_mode st_mode in
              chmod_outputs dry_run outputs (modes(file \<mapsto> chmod_mode st_mode mode)))))"

text \<open>An installed \<^verbatim>\<open>pyq\<close> that is a regular file of mode \<^verbatim>\<open>0o644\<close> (\<^verbatim>\<open>0o100644 = 33188\<close>).\<close>

definition pyq_modes :: "string \<rightharpoonup> int" where
  "pyq_modes = map_of [(''/usr/bin/pyq'', 33188)]"

text \<open>
  A \<^verbatim>\<open>q.k\<close> of a version with two digits before the point, one whose version line
  ends after one digit, and the configurations found from them.
\<close>

definition home_u_q10 :: filesystem where
  "home_u_q10 =
     \<lparr>dirs = [''/home/u/q''], files = [(''/home/u/q/q.k'', ''k:10.2'' @ [LF])], readonly = []\<rparr>"

definition home_u_q3 :: filesystem where
  "home_u_q3 =
     \<lparr>dirs = [''/home/u/q''], files = [(''/home/u/q/q.k'', ''k:3'' @ [LF])], readonly = []\<rparr>"

definition config_36 :: Config where
  "config_36 =
     \<lparr>q_home = ''/home/u/q'', q_arch = ''l64'', q_version = ''3.6'',
      python_dll = ''/usr/lib/libpython3.6m.so.1.0'', dest = ''setup.cfg'', write_flag = True,
      extra_link_args = []\<rparr>"

definition config_3 :: Config where
  "config_3 = config_36\<lparr>q_version := ''3'' @ [LF]\<rparr>"

subsection \<open>BuildQExt.run\<close>

text \<open>\<^verbatim>\<open>add_data_file(data_files, target, source)\<close> on the list of (target, files) pairs.\<close>

fun add_data_file ::
  "(string \<times> string list) list \<Rightarrow> string \<Rightarrow> string \<Rightarrow> (string \<times> string list) list" where
  "add_data_file [] target source = [(target, [source])]"
| "add_data_file ((t, f) # data_files) target source =
     (if t = target then (t, if source \<in> set f then f else f @ [source]) # data_files
      else (t, f) # add_data_file data_files target source)"

text \<open>An \<^verbatim>\<open>Extension\<close>: the attributes that \<^verbatim>\<open>BuildQExt.run\<close> reads.\<close>

record Extension =
  name :: string
  sources :: "string list"
  extra_compile_args :: "string list"

text \<open>
  The compiler of distutils is an argument: its \<^verbatim>\<open>compile_options\<close> after
  \<^verbatim>\<open>initialize()\<close>, and its methods \<^verbatim>\<open>compile\<close> (sources, output directory, macros,
  extra arguments, include directories, compile options; it returns the object files)
  and \<^verbatim>\<open>link_shared_object\<close> (objects, output file name, extra arguments), each of which
  can raise.
\<close>

record ccompiler =
  compile_options :: "string list"
  compile ::
    "string list \<Rightarrow> string \<Rightarrow> (string \<times> string) list \<Rightarrow> string list \<Rightarrow> string list \<Rightarrow>
     string list \<Rightarrow> error + string list"
  link_shared_object :: "string list \<Rightarrow> string \<Rightarrow> string list \<Rightarrow> error + unit"

text \<open>\<^verbatim>\<open>compiler.compile_options.remove('/MD')\<close>, on Windows only: ValueError when absent.\<close>

definition remove_MD :: "host \<Rightarrow> ccompiler \<Rightarrow> error + string list" where
  "remove_MD h cc =
     (if WINDOWS h then
        (if ''/MD'' \<in> set (compile_options cc) then Inr (remove1 ''/MD'' (compile_options cc))
         else Inl ValueError)
      else Inr (compile_options cc))"

text \<open>
  The macros given to \<^verbatim>\<open>compile\<close>: a copy of \<^verbatim>\<open>self.define\<close>, with \<^verbatim>\<open>PY3K\<close> appended on
  Python 3.
\<close>

definition py3k_define :: "host \<Rightarrow> (string \<times> string) list \<Rightarrow> (string \<times> string) list" where
  "py3k_define h define' =
     (if 3 \<le> fst (version_info h)
      then define' @
        [(''PY3K'', str_nat (fst (version_info h)) @ str_nat (snd (version_info h)))]
      else define')"

text \<open>
  The \<^verbatim>\<open>extra_args\<close> given to \<^verbatim>\<open>link_shared_object\<close>: a copy of the \<^verbatim>\<open>extra_link_args\<close> of
  the \<^verbatim>\<open>config\<close> command, with the \<^verbatim>\<open>/DEF:\<close> file of the extension appended on Windows.
\<close>

definition link_extra_args :: "host \<Rightarrow> string list \<Rightarrow> Extension \<Rightarrow> string list" where
  "link_extra_args h conf_link_args ext =
     conf_link_args @
     (if WINDOWS h
      then [''/DEF:src'' @ [CHR 0x5C] @ ''pyq'' @ [CHR 0x5C] @ name ext @ ''.def'']
      else [])"

text \<open>
  The loop of \<^verbatim>\<open>BuildQExt.run\<close> over \<^verbatim>\<open>self.extensions\<close>. The attributes of the command
  (\<^verbatim>\<open>build_lib\<close>, \<^verbatim>\<open>build_temp\<close>, \<^verbatim>\<open>define\<close>, \<^verbatim>\<open>q_arch\<close>) and the \<^verbatim>\<open>extra_link_args\<close> of the
  \<^verbatim>\<open>config\<close> command are arguments, and so is the compiler that \<^verbatim>\<open>new_compiler\<close> makes
  afresh for each extension. The state is \<^verbatim>\<open>distribution.data_files\<close>; the result is
  the state at the end, and the exception that ended the loop, if one did.
\<close>

fun BuildQExt_run ::
  "host \<Rightarrow> ccompiler \<Rightarrow> string \<Rightarrow> string \<Rightarrow> (string \<times> string) list \<Rightarrow> string \<Rightarrow> string list \<Rightarrow>
   Extension list \<Rightarrow> (string \<times> string list) list \<Rightarrow>
   (string \<times> string list) list \<times> error option" where
  "BuildQExt_run h cc build_lib build_temp define' q_arch' conf_link_args [] data_files =
     (data_files, None)"
| "BuildQExt_run h cc build_lib build_temp define' q_arch' conf_link_args (ext # extensions)
     data_files =
     (let ext_path = path_join h build_lib (name ext @ (if WINDOWS h then ''.dll'' else ''.so''))
      in
      case remove_MD h cc of
        Inl e \<Rightarrow> (data_files, Some e)
      | Inr options \<Rightarrow>
          (case compile cc (sources ext) build_temp (py3k_define h define')
                  (extra_compile_args ext) [''src/pyq''] options of
             Inl e \<Rightarrow> (data_files, Some e)
           | Inr objects \<Rightarrow>
               (case link_shared_object cc objects ext_path
                       (link_extra_args h conf_link_args ext) of
                  Inl e \<Rightarrow> (data_files, Some e)
                | Inr u \<Rightarrow>
                    BuildQExt_run h cc build_lib build_temp define' q_arch' conf_link_args
                      extensions
                      (add_data_file data_files (path_join h ''q'' q_arch') ext_path))))"

text \<open>
  Compilers for the examples. Each compiles every source to an object file. The first
  links whatever it is asked to; the second links to the one output file name it is
  made for and fails on every other name. Then the one extension of
  \<^verbatim>\<open>METADATA['qext_modules']\<close> with the compiler flags of a POSIX host.
\<close>

definition any_compiler :: ccompiler where
  "any_compiler =
     \<lparr>compile_options = [''/nologo'', ''/MD'', ''/W3''],
      compile = (\<lambda>srcs out macros args incl opts. Inr (map (\<lambda>s. s @ ''.o'') srcs)),
      link_shared_object = (\<lambda>objs out args. Inr ())\<rparr>"

definition only_linker :: "string \<Rightarrow> ccompiler" where
  "only_linker out_name =
     any_compiler
       \<lparr>link_shared_object :=
          (\<lambda>objs out args. if out = out_name then Inr () else Inl LinkError)\<rparr>"

definition qext_p :: Extension where
  "qext_p =
     \<lparr>name = ''p'', sources = [''src/pyq/p.c''],
      extra_compile_args = [''-Wpointer-arith'', ''-Werror'', ''-fno-strict-aliasing'']\<rparr>"

definition darwin64 :: host where
  "darwin64 = linux64\<lparr>sysname := ''Darwin''\<rparr>"

section \<open>Properties\<close>

subsection \<open>The operating system letter\<close>

text \<open>
  C4. For the supported pairs of system name and machine, \<open>get_q_os_letter\<close> returns
  one of the letters l, s, v, m, w: Linux gives l, SunOS gives v on the machine i86pc and
  s on any other, Darwin gives m, Windows gives w. For every other system name it
  raises the RuntimeError that names the platform.
\<close>

theorem get_q_os_letter_total:
  "(sn = ''Linux'' \<longrightarrow> get_q_os_letter sn m = Inr ''l'') \<and>
   (sn = ''SunOS'' \<and> m = ''i86pc'' \<longrightarrow> get_q_os_letter sn m = Inr ''v'') \<and>
   (sn = ''SunOS'' \<and> m \<noteq> ''i86pc'' \<longrightarrow> get_q_os_letter sn m = Inr ''s'') \<and>
   (sn = ''Darwin'' \<longrightarrow> get_q_os_letter sn m = Inr ''m'') \<and>
   (sn = ''Windows'' \<longrightarrow> get_q_os_letter sn m = Inr ''w'') \<and>
   (sn \<in> {''Linux'', ''SunOS'', ''Darwin'', ''Windows''} \<longrightarrow>
      (\<exists>letter \<in> {''l'', ''s'', ''v'', ''m'', ''w''}. get_q_os_letter sn m = Inr letter)) \<and>
   (sn \<notin> {''Linux'', ''SunOS'', ''Darwin'', ''Windows''} \<longrightarrow>
      get_q_os_letter sn m =
        Inl (RuntimeError (''\"Unknown platform: '' @ sn @ '' '' @ m @ ''.'')))"
  by (simp add: get_q_os_letter_def)

theorem get_q_os_letter_total_witness:
  "get_q_os_letter ''SunOS'' ''i86pc'' = Inr ''v'' \<and>
   get_q_os_letter ''SunOS'' ''sun4u'' = Inr ''s'' \<and>
   get_q_os_letter ''Linux'' ''x86_64'' = Inr ''l'' \<and>
   ''FreeBSD'' \<notin> {''Linux'', ''SunOS'', ''Darwin'', ''Windows''} \<and>
   get_q_os_letter ''FreeBSD'' ''amd64'' = Inl (RuntimeError ''\"Unknown platform: FreeBSD amd64.'')"
  using get_q_os_letter_total [of "''SunOS''" "''i86pc''"]
    get_q_os_letter_total [of "''SunOS''" "''sun4u''"]
    get_q_os_letter_total [of "''Linux''" "''x86_64''"]
    get_q_os_letter_total [of "''FreeBSD''" "''amd64''"]
  by simp

subsection \<open>The runtime home\<close>

lemma prefix_loop_two:
  "prefix_loop h fs env [a, b] =
     (let pa = (case env a of None \<Rightarrow> [] | Some p \<Rightarrow> p);
          pb = (case env b of None \<Rightarrow> [] | Some p \<Rightarrow> p)
      in if pa \<noteq> [] \<and> isdir fs (path_join h pa ''q'') then Some (path_join h pa ''q'')
         else if pb \<noteq> [] \<and> isdir fs (path_join h pb ''q'') then Some (path_join h pb ''q'')
         else None)"
  by (cases "env a"; cases "env b") (simp_all add: Let_def)

lemma get_q_home_cases:
  "get_q_home h fs env =
     (if truthy (env ''QHOME'') then Inr (the (env ''QHOME''))
      else case prefix_loop h fs env [''VIRTUAL_ENV'', ''HOME''] of
             Some q \<Rightarrow> Inr q
           | None \<Rightarrow>
               if WINDOWS h then
                 (case env ''SystemDrive'' of
                    None \<Rightarrow> Inl (KeyError ''SystemDrive'')
                  | Some drive \<Rightarrow>
                      if isdir fs (path_join h drive (CHR 0x5C # ''q''))
                      then Inr (path_join h drive (CHR 0x5C # ''q''))
                      else Inl (RuntimeError ''No suitable QHOME.''))
               else Inl (RuntimeError ''No suitable QHOME.''))"
  unfolding get_q_home_def Let_def
  by (cases "env ''QHOME''") (simp_all del: prefix_loop.simps)

text \<open>
  The order of the strategies of \<open>get_q_home\<close>, in full: the variable \<^verbatim>\<open>QHOME\<close>, taken
  as it is when it is set and not empty; the subdirectory \<^verbatim>\<open>q\<close> of \<^verbatim>\<open>VIRTUAL_ENV\<close>, then
  of \<^verbatim>\<open>HOME\<close>, each accepted only when the variable is set, not empty and the
  subdirectory exists; on Windows only, the path \<^verbatim>\<open>\q\<close> on the drive named by
  \<^verbatim>\<open>SystemDrive\<close>, accepted only when it is an existing directory. The RuntimeError is
  raised exactly when all of these give nothing and, on Windows, \<^verbatim>\<open>SystemDrive\<close> is set.
\<close>

theorem get_q_home_strategies:
  "let venv = (case env ''VIRTUAL_ENV'' of None \<Rightarrow> [] | Some p \<Rightarrow> p);
       home = (case env ''HOME'' of None \<Rightarrow> [] | Some p \<Rightarrow> p);
       venv_ok = (venv \<noteq> [] \<and> isdir fs (path_join h venv ''q''));
       home_ok = (home \<noteq> [] \<and> isdir fs (path_join h home ''q''));
       fixed = (\<lambda>drive. path_join h drive (CHR 0x5C # ''q''))
   in
   (\<forall>q. env ''QHOME'' = Some q \<and> q \<noteq> [] \<longrightarrow> get_q_home h fs env = Inr q) \<and>
   (\<not> truthy (env ''QHOME'') \<and> venv_ok \<longrightarrow>
      get_q_home h fs env = Inr (path_join h venv ''q'')) \<and>
   (\<not> truthy (env ''QHOME'') \<and> \<not> venv_ok \<and> home_ok \<longrightarrow>
      get_q_home h fs env = Inr (path_join h home ''q'')) \<and>
   (\<forall>drive. \<not> truthy (env ''QHOME'') \<and> \<not> venv_ok \<and> \<not> home_ok \<and> WINDOWS h \<and>
      env ''SystemDrive'' = Some drive \<and> isdir fs (fixed drive) \<longrightarrow>
      get_q_home h fs env = Inr (fixed drive)) \<and>
   (\<not> truthy (env ''QHOME'') \<and> \<not> venv_ok \<and> \<not> home_ok \<and> WINDOWS h \<and>
      env ''SystemDrive'' = None \<longrightarrow>
      get_q_home h fs env = Inl (KeyError ''SystemDrive'')) \<and>
   ((\<exists>msg. get_q_home h fs env = Inl (RuntimeError msg)) \<longleftrightarrow>
      \<not> truthy (env ''QHOME'') \<and> \<not> venv_ok \<and> \<not> home_ok \<and>
      (WINDOWS h \<longrightarrow>
         (\<exists>drive. env ''SystemDrive'' = Some drive \<and> \<not> isdir fs (fixed drive))))"
  unfolding get_q_home_cases prefix_loop_two Let_def
  by (cases "env ''SystemDrive''") auto

theorem get_q_home_strategies_witness:
  "get_q_home linux64 home_u_32 home_env = Inr ''/home/u/q'' \<and>
   get_q_home linux64 no_fs home_env = Inl (RuntimeError ''No suitable QHOME.'')"
proof -
  have q: "home_env ''QHOME'' = None" and v: "home_env ''VIRTUAL_ENV'' = None"
    and hm: "home_env ''HOME'' = Some ''/home/u''"
    by (simp_all add: home_env_def)
  have j: "path_join linux64 ''/home/u'' ''q'' = ''/home/u/q''"
    by (simp add: linux64_def posix_join_def)
  have d: "isdir home_u_32 ''/home/u/q''" and n: "\<not> isdir no_fs ''/home/u/q''"
    by (simp_all add: isdir_def home_u_32_def no_fs_def)
  have w: "\<not> WINDOWS linux64"
    by (simp add: WINDOWS_def linux64_def)
  note t = get_q_home_strategies [where env = home_env and h = linux64, unfolded Let_def]
  have "get_q_home linux64 home_u_32 home_env =
          Inr (path_join linux64 (case home_env ''HOME'' of None \<Rightarrow> [] | Some p \<Rightarrow> p) ''q'')"
    by (rule t [THEN conjunct2, THEN conjunct2, THEN conjunct1, THEN mp]) (simp add: q v hm j d)
  then have a: "get_q_home linux64 home_u_32 home_env = Inr ''/home/u/q''"
    by (simp add: hm j)
  have "\<exists>msg. get_q_home linux64 no_fs home_env = Inl (RuntimeError msg)"
    by (rule t [THEN conjunct2, THEN conjunct2, THEN conjunct2, THEN conjunct2,
          THEN conjunct2, THEN iffD2]) (simp add: q v hm j n w)
  then have b: "get_q_home linux64 no_fs home_env = Inl (RuntimeError ''No suitable QHOME.'')"
    by (simp add: get_q_home_def q v hm j n w)
  show ?thesis using a b by simp
qed

text \<open>
  C2. The function is to raise its RuntimeError when every strategy has failed. On
  Windows with \<^verbatim>\<open>SystemDrive\<close> not set it does not: no \<^verbatim>\<open>QHOME\<close>, no \<^verbatim>\<open>VIRTUAL_ENV\<close>, no
  \<^verbatim>\<open>HOME\<close> and no directory at all, so every strategy has failed, and the subscript
  \<^verbatim>\<open>env['SystemDrive']\<close> raises KeyError before the final \<^verbatim>\<open>raise\<close> is reached. The same
  empty environment gives the RuntimeError on Linux, and on Windows as soon as
  \<^verbatim>\<open>SystemDrive\<close> is set; the three other variables are read with \<^verbatim>\<open>env.get\<close>.
\<close>

theorem get_q_home_KeyError:
  "get_q_home windows64 no_fs no_env = Inl (KeyError ''SystemDrive'') \<and>
   get_q_home windows64 no_fs (no_env(''SystemDrive'' \<mapsto> ''C:'')) =
     Inl (RuntimeError ''No suitable QHOME.'') \<and>
   get_q_home linux64 no_fs no_env = Inl (RuntimeError ''No suitable QHOME.'')"
  by (simp add: get_q_home_def windows64_def linux64_def no_env_def no_fs_def WINDOWS_def
      isdir_def)

text \<open>
  C10. Whenever \<^verbatim>\<open>QHOME\<close> is set to a string that is not empty, \<open>get_q_home\<close> returns
  that string, whatever the file system holds: no \<open>isdir\<close> check is made on it.
\<close>

theorem get_q_home_QHOME_unchecked:
  "env ''QHOME'' = Some q \<Longrightarrow> q \<noteq> [] \<Longrightarrow> get_q_home h fs env = Inr q"
  by (simp add: get_q_home_def)

theorem get_q_home_QHOME_unchecked_witness:
  "qhome_env ''QHOME'' = Some ''/no/such/dir'' \<and> ''/no/such/dir'' \<noteq> [] \<and>
   \<not> isdir home_u_32 ''/no/such/dir'' \<and> isdir home_u_32 ''/home/u/q'' \<and>
   get_q_home linux64 home_u_32 qhome_env = Inr ''/no/such/dir''"
proof -
  have q: "qhome_env ''QHOME'' = Some ''/no/such/dir''" by (simp add: qhome_env_def)
  have ne: "''/no/such/dir'' \<noteq> []" by simp
  show ?thesis
    using get_q_home_QHOME_unchecked [of qhome_env "''/no/such/dir''" linux64 home_u_32] q
    by (simp add: isdir_def home_u_32_def)
qed

subsection \<open>The platform code\<close>

lemma str_nat_nonempty: "str_nat n \<noteq> []"
  by (subst str_nat.simps) simp

lemma digit_inj:
  fixes a b :: nat
  assumes "a < 10" "b < 10" "''0123456789'' ! a = ''0123456789'' ! b"
  shows "a = b"
proof -
  have a: "a \<in> {0,1,2,3,4,5,6,7,8,9}" using assms(1) by auto
  have b: "b \<in> {0,1,2,3,4,5,6,7,8,9}" using assms(2) by auto
  show ?thesis using a b assms(3) by auto
qed

lemma str_nat_digit: "n < 10 \<Longrightarrow> str_nat n = [''0123456789'' ! n]"
  by (subst str_nat.simps) simp

lemma str_nat_step: "\<not> n < 10 \<Longrightarrow> str_nat n = str_nat (n div 10) @ [''0123456789'' ! (n mod 10)]"
  by (subst str_nat.simps) simp

lemma str_nat_length2: "\<not> n < 10 \<Longrightarrow> 2 \<le> length (str_nat n)"
proof -
  assume n: "\<not> n < 10"
  have "length (str_nat (n div 10)) \<noteq> 0" using str_nat_nonempty by simp
  then show ?thesis using str_nat_step [OF n] by simp
qed

lemma str_nat_64: "str_nat n = ''64'' \<longleftrightarrow> n = 64"
proof
  assume h: "str_nat n = ''64''"
  have n10: "\<not> n < 10"
  proof
    assume "n < 10"
    then have "length (str_nat n) = 1" by (simp add: str_nat_digit)
    then show False using h by simp
  qed
  from str_nat_step [OF n10] h
  have hi: "str_nat (n div 10) = ''6''" and lo: "''0123456789'' ! (n mod 10) = CHR ''4''"
    by simp_all
  have d10: "n div 10 < 10"
  proof (rule ccontr)
    assume "\<not> n div 10 < 10"
    then have "2 \<le> length (str_nat (n div 10))" by (rule str_nat_length2)
    then show False using hi by simp
  qed
  have "''0123456789'' ! (n div 10) = ''0123456789'' ! (6::nat)"
    using hi str_nat_digit [OF d10] by simp
  then have six: "n div 10 = 6" using digit_inj [OF d10, of 6] by simp
  have "''0123456789'' ! (n mod 10) = ''0123456789'' ! (4::nat)" using lo by simp
  then have four: "n mod 10 = 4" using digit_inj [of "n mod 10" 4] by simp
  show "n = 64" using six four by presburger
next
  assume "n = 64"
  then show "str_nat n = ''64''" by simp
qed

lemma os_letter_single: "get_q_os_letter sn m = Inr l \<Longrightarrow> length l = 1"
  by (auto simp: get_q_os_letter_def split: if_splits)

text \<open>
  C3. When the subdirectory \<^verbatim>\<open><os-letter>64\<close> of the runtime home does not exist,
  \<open>get_q_arch\<close> never returns a 64-bit platform code (a letter followed by \<^verbatim>\<open>64\<close>), and
  on a 64-bit host it returns the 32-bit code \<^verbatim>\<open><os-letter>32\<close>.
\<close>

theorem get_q_arch_downgrade:
  assumes letter: "get_q_os_letter (sysname h) (machine h) = Inr os_letter"
      and absent: "\<not> isdir fs (path_join h home_dir (os_letter @ ''64''))"
  shows "(\<forall>c. get_q_arch h fs home_dir \<noteq> Inr (c # ''64'')) \<and>
         (bit_length (maxsize h + 1) = 64 \<longrightarrow> get_q_arch h fs home_dir = Inr (os_letter @ ''32''))"
proof -
  obtain l where l: "os_letter = [l]"
    using os_letter_single [OF letter] by (cases os_letter) auto
  have thirty_two: "str_nat 32 = ''32''" by simp
  show ?thesis
  proof (cases "bit_length (maxsize h + 1) = 64")
    case True
    then have "get_q_arch h fs home_dir = Inr (os_letter @ ''32'')"
      using letter absent thirty_two by (simp add: get_q_arch_def del: str_nat.simps)
    then show ?thesis using l by simp
  next
    case False
    then have "get_q_arch h fs home_dir = Inr (os_letter @ str_nat (bit_length (maxsize h + 1)))"
      using letter by (simp add: get_q_arch_def del: str_nat.simps)
    then show ?thesis using False l str_nat_64 [of "bit_length (maxsize h + 1)"]
      by (simp del: str_nat.simps)
  qed
qed

theorem get_q_arch_downgrade_witness:
  "get_q_os_letter (sysname linux64) (machine linux64) = Inr ''l'' \<and>
   \<not> isdir home_u_32 (path_join linux64 ''/home/u/q'' (''l'' @ ''64'')) \<and>
   bit_length (maxsize linux64 + 1) = 64 \<and>
   get_q_arch linux64 home_u_32 ''/home/u/q'' = Inr ''l32'' \<and>
   get_q_arch linux64 home_u_32 ''/home/u/q'' \<noteq> Inr ''l64''"
proof -
  have letter: "get_q_os_letter (sysname linux64) (machine linux64) = Inr ''l''"
    by (simp add: get_q_os_letter_def linux64_def)
  have absent: "\<not> isdir home_u_32 (path_join linux64 ''/home/u/q'' (''l'' @ ''64''))"
    by (simp add: isdir_def home_u_32_def linux64_def posix_join_def)
  have bits: "bit_length (maxsize linux64 + 1) = 64"
    by (simp add: bit_length_def linux64_def)
  show ?thesis
    using get_q_arch_downgrade [OF letter absent] letter absent bits by simp
qed


subsection \<open>The runtime version\<close>

lemma concat_readlines: "concat (readlines s) = s"
  by (induction s) (auto split: list.splits)

lemma scan_version_default:
  "\<forall>line \<in> set lines. \<not> startswith ''k:'' line \<Longrightarrow> scan_version lines = ''2.2''"
  by (induction lines) simp_all

lemma scan_version_first:
  "\<forall>l \<in> set before. \<not> startswith ''k:'' l \<Longrightarrow> startswith ''k:'' line \<Longrightarrow>
   scan_version (before @ line # after) = take 3 (drop 2 line)"
  by (induction before) simp_all

text \<open>
  C1, as amended. When \<^verbatim>\<open>q.k\<close> cannot be opened under the home directory,
  \<open>get_q_version\<close> raises the error of \<^verbatim>\<open>open\<close> (it returns nothing). When the file is
  there, it returns the slice \<^verbatim>\<open>[2:5]\<close> of the first line that starts with \<^verbatim>\<open>k:\<close>, and
  \<^verbatim>\<open>2.2\<close> when no line does.
\<close>

theorem get_q_version_first_line:
  "(map_of (files fs) (path_join h home_dir ''q.k'') = None \<longrightarrow>
      get_q_version h fs home_dir = Inl (OSError (path_join h home_dir ''q.k''))) \<and>
   (map_of (files fs) (path_join h home_dir ''q.k'') = Some content \<and>
    (\<forall>line \<in> set (readlines content). \<not> startswith ''k:'' line) \<longrightarrow>
      get_q_version h fs home_dir = Inr ''2.2'') \<and>
   (map_of (files fs) (path_join h home_dir ''q.k'') = Some content \<and>
    readlines content = before @ line # after \<and>
    (\<forall>l \<in> set before. \<not> startswith ''k:'' l) \<and> startswith ''k:'' line \<longrightarrow>
      get_q_version h fs home_dir = Inr (take 3 (drop 2 line)))"
  by (simp add: get_q_version_def open_r_def scan_version_default scan_version_first
      del: scan_version.simps)

theorem get_q_version_first_line_witness:
  "map_of (files home_u_qk) (path_join linux64 ''/home/u/q'' ''q.k'') = Some q_k_text \<and>
   readlines q_k_text = [''/ q.k'' @ [LF]] @ (''k:3.6; bootstrap'' @ [LF]) # [''k:9.9'' @ [LF]] \<and>
   get_q_version linux64 home_u_qk ''/home/u/q'' = Inr ''3.6''"
proof -
  have f: "map_of (files home_u_qk) (path_join linux64 ''/home/u/q'' ''q.k'') = Some q_k_text"
    by (simp add: home_u_qk_def linux64_def posix_join_def)
  have r: "readlines q_k_text =
             [''/ q.k'' @ [LF]] @ (''k:3.6; bootstrap'' @ [LF]) # [''k:9.9'' @ [LF]]"
    by (simp add: q_k_text_def LF_def)
  have "get_q_version linux64 home_u_qk ''/home/u/q'' =
          Inr (take 3 (drop 2 (''k:3.6; bootstrap'' @ [LF])))"
    by (rule get_q_version_first_line [where content = q_k_text and before = "[''/ q.k'' @ [LF]]"
          and after = "[''k:9.9'' @ [LF]]", THEN conjunct2, THEN conjunct2, THEN mp])
       (simp add: f r)
  then show ?thesis using f r by simp
qed

text \<open>
  C1 as stated fails where \<^verbatim>\<open>q.k\<close> is absent: nothing catches the error of \<^verbatim>\<open>open\<close>, and
  no version is returned.
\<close>

theorem get_q_version_absent:
  "get_q_version linux64 no_fs ''/home/u/q'' = Inl (OSError ''/home/u/q/q.k'')"
  by (simp add: get_q_version_def open_r_def no_fs_def linux64_def posix_join_def)


subsection \<open>The Python shared library\<close>










subsection \<open>The mode of the installed executables\<close>

lemma exec_mode_twice: "exec_mode (exec_mode m) = exec_mode m"
proof -
  have "((m OR 365) AND 4095 OR 365) AND 4095 = (m OR 365) AND (4095 :: int)"
    by (rule bit_eqI) (auto simp: bit_and_iff bit_or_iff)
  then show ?thesis by (simp add: exec_mode_def)
qed

lemma chmod_mode_fixed:
  "chmod_mode (chmod_mode m (exec_mode m)) (exec_mode (chmod_mode m (exec_mode m))) =
     chmod_mode m (exec_mode m)"
  unfolding chmod_mode_def exec_mode_def
  by (rule bit_eqI) (auto simp: bit_and_iff bit_or_iff bit_not_iff)

lemma chmod_outputs_fixed:
  "\<forall>f \<in> set outputs. \<exists>m. modes f = Some m \<and> chmod_mode m (exec_mode m) = m \<Longrightarrow>
   chmod_outputs False outputs modes = Inr modes"
proof (induction outputs)
  case Nil
  then show ?case by simp
next
  case (Cons path outputs)
  then obtain m where m: "modes path = Some m" "chmod_mode m (exec_mode m) = m"
    by auto
  then have "modes(path \<mapsto> chmod_mode m (exec_mode m)) = modes"
    by (simp add: fun_upd_idem)
  then show ?case using Cons m by simp
qed

lemma chmod_outputs_fixes:
  "chmod_outputs False outputs modes = Inr modes' \<Longrightarrow>
   \<forall>f \<in> S. \<exists>m. modes f = Some m \<and> chmod_mode m (exec_mode m) = m \<Longrightarrow>
   \<forall>f \<in> S \<union> set outputs. \<exists>m. modes' f = Some m \<and> chmod_mode m (exec_mode m) = m"
proof (induction outputs arbitrary: modes S)
  case Nil
  then show ?case by simp
next
  case (Cons path outputs)
  from Cons.prems(1) obtain st where st: "modes path = Some st"
    and run: "chmod_outputs False outputs (modes(path \<mapsto> chmod_mode st (exec_mode st)))
                = Inr modes'"
    by (auto simp: Let_def split: option.splits)
  have "\<forall>f \<in> insert path S.
          \<exists>m. (modes(path \<mapsto> chmod_mode st (exec_mode st))) f = Some m \<and>
              chmod_mode m (exec_mode m) = m"
    using Cons.prems(2) by (simp add: chmod_mode_fixed)
  from Cons.IH [OF run this] show ?case by simp
qed

text \<open>
  C8. The mode that \<^verbatim>\<open>InstallExe.run\<close> computes on POSIX is
  \<^verbatim>\<open>(old_mode | 0o555) & 0o7777\<close>, and computing it from an already fixed mode gives the
  same mode again; so the loop over the installed files, run a second time on the
  modes it has left, changes none of them.
\<close>

theorem exec_mode_idempotent:
  "exec_mode m = (m OR 365) AND 4095 \<and> exec_mode (exec_mode m) = exec_mode m \<and>
   (chmod_outputs False outputs modes = Inr modes' \<longrightarrow>
      chmod_outputs False outputs modes' = Inr modes')"
proof (intro conjI impI)
  show "exec_mode m = (m OR 365) AND 4095"
    by (simp add: exec_mode_def)
  show "exec_mode (exec_mode m) = exec_mode m"
    by (rule exec_mode_twice)
next
  assume "chmod_outputs False outputs modes = Inr modes'"
  from chmod_outputs_fixes [OF this, of "{}"]
  have "\<forall>f \<in> set outputs. \<exists>m. modes' f = Some m \<and> chmod_mode m (exec_mode m) = m"
    by simp
  then show "chmod_outputs False outputs modes' = Inr modes'"
    by (rule chmod_outputs_fixed)
qed

theorem exec_mode_idempotent_witness:
  "exec_mode 33188 = 493 \<and> exec_mode (exec_mode 33188) = 493 \<and>
   chmod_outputs False [''/usr/bin/pyq''] pyq_modes = Inr (pyq_modes(''/usr/bin/pyq'' \<mapsto> 33261)) \<and>
   chmod_outputs False [''/usr/bin/pyq''] (pyq_modes(''/usr/bin/pyq'' \<mapsto> 33261)) =
     Inr (pyq_modes(''/usr/bin/pyq'' \<mapsto> 33261))"
proof -
  have e: "exec_mode 33188 = 493"
    by (simp add: exec_mode_def)
  have c: "chmod_mode 33188 493 = 33261"
    by (simp add: chmod_mode_def)
  have run: "chmod_outputs False [''/usr/bin/pyq''] pyq_modes =
               Inr (pyq_modes(''/usr/bin/pyq'' \<mapsto> 33261))"
    by (simp add: pyq_modes_def e c)
  note t = exec_mode_idempotent [where m = 33188 and outputs = "[''/usr/bin/pyq'']"
      and modes = pyq_modes and modes' = "pyq_modes(''/usr/bin/pyq'' \<mapsto> 33261)"]
  have twice: "exec_mode (exec_mode 33188) = 493"
    using t [THEN conjunct2, THEN conjunct1] e by simp
  have again: "chmod_outputs False [''/usr/bin/pyq''] (pyq_modes(''/usr/bin/pyq'' \<mapsto> 33261)) =
     Inr (pyq_modes(''/usr/bin/pyq'' \<mapsto> 33261))"
    by (rule t [THEN conjunct2, THEN conjunct2, THEN mp, OF run])
  show ?thesis using e twice run again by simp
qed

subsection \<open>The macros of the builders\<close>

lemma BuildQExt_define_major:
  "BuildQExt_define None v = Inr d \<Longrightarrow> map_of d ''KXVER'' = Some (hd (split_on (CHR ''.'') v))"
  by (auto simp: BuildQExt_define_def and_then_def item_def Let_def hd_conv_nth
      split: if_splits)

lemma BuildExe_define_first_char:
  "BuildExe_define None v a = Inr d \<Longrightarrow> map_of d ''KXVER'' = Some [hd v]"
  by (auto simp: BuildExe_define_def and_then_def item_def hd_conv_nth split: if_splits)

text \<open>
  C6 does not hold for the executable builder. \<^verbatim>\<open>BuildQExt\<close> defines \<^verbatim>\<open>KXVER\<close> as the
  first component of the version token split at the points; \<^verbatim>\<open>BuildExe\<close> takes the first
  character of the token. For the token \<^verbatim>\<open>10.\<close>, read from a \<^verbatim>\<open>q.k\<close> whose version line
  is \<^verbatim>\<open>k:10.2\<close>, the first gives \<^verbatim>\<open>10\<close> and the second \<^verbatim>\<open>1\<close>.
\<close>

theorem BuildExe_KXVER_first_character:
  "get_q_version linux64 home_u_q10 ''/home/u/q'' = Inr ''10.'' \<and>
   BuildQExt_define None ''10.'' = Inr [(''KXVER'', ''10''), (''KXVER2'', [])] \<and>
   BuildExe_define None ''10.'' ''l64'' = Inr [(''KXVER'', ''1''), (''QARCH'', ''l64'')]"
  by (simp add: get_q_version_def open_r_def home_u_q10_def linux64_def posix_join_def LF_def
      BuildQExt_define_def BuildExe_define_def and_then_def item_def)

subsection \<open>The persisted configuration\<close>

lemma split_on_append:
  "sep \<notin> set a \<Longrightarrow> split_on sep (a @ sep # rest) = a # split_on sep rest"
  by (induction a) auto

lemma SETUP_CFG_lines:
  assumes "LF \<notin> set (q_home c)" "LF \<notin> set (q_version c)" "LF \<notin> set (q_arch c)"
    "LF \<notin> set (python_dll c)"
  shows "split_on LF (SETUP_CFG c) =
           [''[config]'', ''q_home = '' @ q_home c, ''q_version = '' @ q_version c,
            ''q_arch = '' @ q_arch c, ''python_dll = '' @ python_dll c, []]"
proof -
  have shape: "SETUP_CFG c =
      ''[config]'' @ LF # (''q_home = '' @ q_home c) @ LF # (''q_version = '' @ q_version c) @
      LF # (''q_arch = '' @ q_arch c) @ LF # (''python_dll = '' @ python_dll c) @ LF # []"
    by (simp add: SETUP_CFG_def)
  have k0: "LF \<notin> set ''[config]''"
    by (simp add: LF_def)
  have k1: "LF \<notin> set (''q_home = '' @ q_home c)"
    using assms(1) by (simp add: LF_def)
  have k2: "LF \<notin> set (''q_version = '' @ q_version c)"
    using assms(2) by (simp add: LF_def)
  have k3: "LF \<notin> set (''q_arch = '' @ q_arch c)"
    using assms(3) by (simp add: LF_def)
  have k4: "LF \<notin> set (''python_dll = '' @ python_dll c)"
    using assms(4) by (simp add: LF_def)
  show ?thesis
    unfolding shape
    by (simp only: split_on_append [OF k0] split_on_append [OF k1] split_on_append [OF k2]
        split_on_append [OF k3] split_on_append [OF k4] split_on.simps(1))
qed

lemma parse_lines:
  "parse_line ''[config]'' = None"
  "parse_line [] = None"
  "parse_line (''q_home = '' @ v) = Some (''q_home'', v)"
  "parse_line (''q_version = '' @ v) = Some (''q_version'', v)"
  "parse_line (''q_arch = '' @ v) = Some (''q_arch'', v)"
  "parse_line (''python_dll = '' @ v) = Some (''python_dll'', v)"
  by (simp_all add: parse_line_def cfg_keys_def)

lemma parse_cfg_SETUP_CFG:
  assumes "LF \<notin> set (q_home c)" "LF \<notin> set (q_version c)" "LF \<notin> set (q_arch c)"
    "LF \<notin> set (python_dll c)"
  shows "parse_cfg (SETUP_CFG c) =
           map_of [(''q_home'', q_home c), (''q_version'', q_version c),
                   (''q_arch'', q_arch c), (''python_dll'', python_dll c)]"
  by (simp only: parse_cfg_def SETUP_CFG_lines [OF assms] parse_lines map_filter_simps
      option.case)

text \<open>
  C7, as amended. With the option \<^verbatim>\<open>write\<close> (and a destination that can be opened for
  writing) \<^verbatim>\<open>Config.run\<close> writes the text \<open>SETUP_CFG\<close>, a function of the four values
  alone, to the destination; without the option the file system is left as it was; in
  both cases the command object is unchanged. When none of the four values contains a
  newline, re-parsing the text gives exactly the four keys \<^verbatim>\<open>q_home\<close>, \<^verbatim>\<open>q_version\<close>,
  \<^verbatim>\<open>q_arch\<close>, \<^verbatim>\<open>python_dll\<close>, each with its value.
\<close>

theorem Config_run_persist:
  "(write_flag c \<and> dest c \<notin> set (readonly fs) \<longrightarrow>
      Config_run h c (fs, announced) =
        Inr (c, fs\<lparr>files := (dest c, SETUP_CFG c) # files fs\<rparr>,
             announced @ [rstrip h (SETUP_CFG c), ''^^^ Written to '' @ dest c @ ''.'']) \<and>
      open_r (fs\<lparr>files := (dest c, SETUP_CFG c) # files fs\<rparr>) (dest c) = Inr (SETUP_CFG c)) \<and>
   (\<not> write_flag c \<longrightarrow>
      Config_run h c (fs, announced) =
        Inr (c, fs, announced @
               [rstrip h (SETUP_CFG c),
                ''^^^ Use --write options to write this to '' @ dest c @ ''.''])) \<and>
   (Config_run h c st = Inr (c', fs', announced') \<longrightarrow> c' = c) \<and>
   (LF \<notin> set (q_home c) \<and> LF \<notin> set (q_version c) \<and> LF \<notin> set (q_arch c) \<and>
    LF \<notin> set (python_dll c) \<longrightarrow>
      parse_cfg (SETUP_CFG c) =
        map_of [(''q_home'', q_home c), (''q_version'', q_version c),
                (''q_arch'', q_arch c), (''python_dll'', python_dll c)] \<and>
      dom (parse_cfg (SETUP_CFG c)) = set cfg_keys)"
proof (intro conjI impI)
  assume "write_flag c \<and> dest c \<notin> set (readonly fs)"
  then show "Config_run h c (fs, announced) =
        Inr (c, fs\<lparr>files := (dest c, SETUP_CFG c) # files fs\<rparr>,
             announced @ [rstrip h (SETUP_CFG c), ''^^^ Written to '' @ dest c @ ''.''])"
    by (simp add: Config_run_def open_w_def Let_def)
next
  show "open_r (fs\<lparr>files := (dest c, SETUP_CFG c) # files fs\<rparr>) (dest c) = Inr (SETUP_CFG c)"
    by (simp add: open_r_def)
next
  assume "\<not> write_flag c"
  then show "Config_run h c (fs, announced) =
        Inr (c, fs, announced @
               [rstrip h (SETUP_CFG c),
                ''^^^ Use --write options to write this to '' @ dest c @ ''.''])"
    by (simp add: Config_run_def Let_def)
next
  assume "Config_run h c st = Inr (c', fs', announced')"
  then show "c' = c"
    by (auto simp: Config_run_def Let_def split: if_splits sum.splits)
next
  assume h: "LF \<notin> set (q_home c) \<and> LF \<notin> set (q_version c) \<and> LF \<notin> set (q_arch c) \<and>
    LF \<notin> set (python_dll c)"
  then show p: "parse_cfg (SETUP_CFG c) =
        map_of [(''q_home'', q_home c), (''q_version'', q_version c),
                (''q_arch'', q_arch c), (''python_dll'', python_dll c)]"
    by (simp add: parse_cfg_SETUP_CFG)
  show "dom (parse_cfg (SETUP_CFG c)) = set cfg_keys"
    unfolding p by (auto simp: cfg_keys_def)
qed

theorem Config_run_persist_witness:
  "Config_run linux64 config_36 (no_fs, []) =
     Inr (config_36, no_fs\<lparr>files := [(''setup.cfg'', SETUP_CFG config_36)]\<rparr>,
          [rstrip linux64 (SETUP_CFG config_36), ''^^^ Written to setup.cfg.'']) \<and>
   Config_run linux64 (config_36\<lparr>write_flag := False\<rparr>) (no_fs, []) =
     Inr (config_36\<lparr>write_flag := False\<rparr>, no_fs,
          [rstrip linux64 (SETUP_CFG config_36),
           ''^^^ Use --write options to write this to setup.cfg.'']) \<and>
   parse_cfg (SETUP_CFG config_36) ''q_home'' = Some ''/home/u/q'' \<and>
   parse_cfg (SETUP_CFG config_36) ''q_version'' = Some ''3.6'' \<and>
   parse_cfg (SETUP_CFG config_36) ''q_arch'' = Some ''l64'' \<and>
   parse_cfg (SETUP_CFG config_36) ''python_dll'' = Some ''/usr/lib/libpython3.6m.so.1.0''"
proof -
  note t = Config_run_persist [where h = linux64 and fs = no_fs and announced = "[]"]
  have w: "write_flag config_36 \<and> dest config_36 \<notin> set (readonly no_fs)"
    by (simp add: config_36_def no_fs_def)
  have a: "Config_run linux64 config_36 (no_fs, []) =
     Inr (config_36, no_fs\<lparr>files := [(''setup.cfg'', SETUP_CFG config_36)]\<rparr>,
          [rstrip linux64 (SETUP_CFG config_36), ''^^^ Written to setup.cfg.''])"
    using t [where c = config_36, THEN conjunct1, THEN mp, OF w, THEN conjunct1]
    by (simp add: config_36_def no_fs_def)
  have same: "SETUP_CFG (config_36\<lparr>write_flag := False\<rparr>) = SETUP_CFG config_36"
    by (simp add: SETUP_CFG_def)
  have b: "Config_run linux64 (config_36\<lparr>write_flag := False\<rparr>) (no_fs, []) =
     Inr (config_36\<lparr>write_flag := False\<rparr>, no_fs,
          [rstrip linux64 (SETUP_CFG config_36),
           ''^^^ Use --write options to write this to setup.cfg.''])"
    using t [where c = "config_36\<lparr>write_flag := False\<rparr>", THEN conjunct2, THEN conjunct1]
    by (simp add: same) (simp add: config_36_def)
  have n: "LF \<notin> set (q_home config_36) \<and> LF \<notin> set (q_version config_36) \<and>
           LF \<notin> set (q_arch config_36) \<and> LF \<notin> set (python_dll config_36)"
    by (simp add: config_36_def LF_def)
  have p: "parse_cfg (SETUP_CFG config_36) =
        map_of [(''q_home'', q_home config_36), (''q_version'', q_version config_36),
                (''q_arch'', q_arch config_36), (''python_dll'', python_dll config_36)]"
    using t [where c = config_36, THEN conjunct2, THEN conjunct2, THEN conjunct2, THEN mp, OF n]
    by (rule conjunct1)
  have v: "q_home config_36 = ''/home/u/q''" "q_version config_36 = ''3.6''"
    "q_arch config_36 = ''l64''" "python_dll config_36 = ''/usr/lib/libpython3.6m.so.1.0''"
    by (simp_all add: config_36_def)
  show ?thesis
    unfolding p v using a b by simp
qed

text \<open>
  C7 as stated fails for a value with a newline in it. The version line \<^verbatim>\<open>k:3\<close> of a
  \<^verbatim>\<open>q.k\<close> gives the version token \<^verbatim>\<open>3\<close> followed by the newline of that line; the text
  written for it has the line \<^verbatim>\<open>q_version = 3\<close> and an empty line, and re-parsing
  gives \<^verbatim>\<open>3\<close>, not the token.
\<close>

theorem parse_cfg_newline:
  "get_q_version linux64 home_u_q3 ''/home/u/q'' = Inr (q_version config_3) \<and>
   parse_cfg (SETUP_CFG config_3) ''q_version'' = Some ''3'' \<and>
   q_version config_3 \<noteq> ''3''"
proof -
  have a: "get_q_version linux64 home_u_q3 ''/home/u/q'' = Inr (q_version config_3)"
    by (simp add: get_q_version_def open_r_def home_u_q3_def linux64_def posix_join_def
        config_3_def config_36_def LF_def)
  have l: "split_on LF (SETUP_CFG config_3) =
             [''[config]'', ''q_home = /home/u/q'', ''q_version = 3'', [], ''q_arch = l64'',
              ''python_dll = /usr/lib/libpython3.6m.so.1.0'', []]"
    by (simp add: SETUP_CFG_def config_3_def config_36_def LF_def)
  have b: "parse_cfg (SETUP_CFG config_3) ''q_version'' = Some ''3''"
    unfolding parse_cfg_def l by (simp add: parse_line_def cfg_keys_def)
  have c: "q_version config_3 \<noteq> ''3''"
    by (simp add: config_3_def)
  show ?thesis using a b c by simp
qed

subsection \<open>The file name of a q extension\<close>

lemma BuildQExt_run_success:
  assumes sfx: "(if WINDOWS h then ''.dll'' else ''.so'') = sfx"
  shows "BuildQExt_run h cc build_lib build_temp define' q_arch' conf_link_args extensions
     data_files = (data_files', None) \<longleftrightarrow>
   (\<forall>ext \<in> set extensions. \<exists>options objects.
      remove_MD h cc = Inr options \<and>
      compile cc (sources ext) build_temp (py3k_define h define') (extra_compile_args ext)
        [''src/pyq''] options = Inr objects \<and>
      link_shared_object cc objects (path_join h build_lib (name ext @ sfx))
        (link_extra_args h conf_link_args ext) = Inr ()) \<and>
   data_files' =
     foldl (\<lambda>fs ext. add_data_file fs (path_join h ''q'' q_arch')
              (path_join h build_lib (name ext @ sfx)))
       data_files extensions"
proof (induction extensions arbitrary: data_files)
  case Nil
  then show ?case by auto
next
  case (Cons ext extensions)
  show ?case
  proof (cases "remove_MD h cc")
    case (Inl e)
    then show ?thesis by (auto simp: Let_def sfx)
  next
    case options: (Inr options)
    show ?thesis
    proof (cases "compile cc (sources ext) build_temp (py3k_define h define')
                    (extra_compile_args ext) [''src/pyq''] options")
      case (Inl e)
      then show ?thesis using options by (auto simp: Let_def sfx)
    next
      case objects: (Inr objects)
      show ?thesis
      proof (cases "link_shared_object cc objects (path_join h build_lib (name ext @ sfx))
          (link_extra_args h conf_link_args ext)")
        case (Inl e)
        then show ?thesis using options objects by (auto simp: Let_def sfx)
      next
        case (Inr u)
        then show ?thesis using options objects by (auto simp: Let_def sfx Cons.IH)
      qed
    qed
  qed
qed

lemma BuildQExt_run_raised:
  assumes sfx: "(if WINDOWS h then ''.dll'' else ''.so'') = sfx"
  shows "BuildQExt_run h cc build_lib build_temp define' q_arch' conf_link_args extensions
     data_files = (data_files', Some e) \<Longrightarrow>
   \<exists>n < length extensions.
     data_files' =
       foldl (\<lambda>fs ext. add_data_file fs (path_join h ''q'' q_arch')
                (path_join h build_lib (name ext @ sfx)))
         data_files (take n extensions) \<and>
     (\<forall>options objects.
        remove_MD h cc = Inr options \<longrightarrow>
        compile cc (sources (extensions ! n)) build_temp (py3k_define h define')
          (extra_compile_args (extensions ! n)) [''src/pyq''] options = Inr objects \<longrightarrow>
        link_shared_object cc objects (path_join h build_lib (name (extensions ! n) @ sfx))
          (link_extra_args h conf_link_args (extensions ! n)) = Inl e)"
proof (induction extensions arbitrary: data_files)
  case Nil
  then show ?case by simp
next
  case (Cons ext extensions)
  let ?out = "\<lambda>ext. path_join h build_lib (name ext @ sfx)"
  let ?step = "\<lambda>fs ext. add_data_file fs (path_join h ''q'' q_arch') (?out ext)"
  let ?failed = "\<lambda>ext. \<forall>options objects.
        remove_MD h cc = Inr options \<longrightarrow>
        compile cc (sources ext) build_temp (py3k_define h define')
          (extra_compile_args ext) [''src/pyq''] options = Inr objects \<longrightarrow>
        link_shared_object cc objects (?out ext) (link_extra_args h conf_link_args ext) = Inl e"
  consider
    (stopped) "data_files' = data_files" "?failed ext"
  | (linked) "BuildQExt_run h cc build_lib build_temp define' q_arch' conf_link_args extensions
               (?step data_files ext) = (data_files', Some e)"
    using Cons.prems by (auto simp: Let_def sfx split: sum.splits)
  then show ?case
  proof cases
    case stopped
    have "0 < length (ext # extensions)" by simp
    moreover have "data_files' = foldl ?step data_files (take 0 (ext # extensions))"
      using stopped(1) by simp
    moreover have "?failed ((ext # extensions) ! 0)"
      using stopped(2) by simp
    ultimately show ?thesis by blast
  next
    case linked
    from Cons.IH [OF linked] obtain n where
      n: "n < length extensions"
        "data_files' = foldl ?step (?step data_files ext) (take n extensions)"
        "?failed (extensions ! n)"
      by blast
    have "Suc n < length (ext # extensions)"
      using n(1) by simp
    moreover have "data_files' = foldl ?step data_files (take (Suc n) (ext # extensions))"
      using n(2) by simp
    moreover have "?failed ((ext # extensions) ! Suc n)"
      using n(3) by simp
    ultimately show ?thesis by blast
  qed
qed

lemma BuildQExt_run_linker:
  assumes sfx: "(if WINDOWS h then ''.dll'' else ''.so'') = sfx"
  shows "(\<forall>ext \<in> set extensions. \<forall>objects extra_args.
      link' objects (path_join h build_lib (name ext @ sfx)) extra_args
      = link_shared_object cc objects (path_join h build_lib (name ext @ sfx)) extra_args) \<Longrightarrow>
   BuildQExt_run h (cc\<lparr>link_shared_object := link'\<rparr>) build_lib build_temp define' q_arch'
     conf_link_args extensions data_files
   = BuildQExt_run h cc build_lib build_temp define' q_arch' conf_link_args extensions data_files"
proof (induction extensions arbitrary: data_files)
  case Nil
  then show ?case by simp
next
  case (Cons ext extensions)
  have md: "remove_MD h (cc\<lparr>link_shared_object := link'\<rparr>) = remove_MD h cc"
    by (simp add: remove_MD_def)
  have here: "\<And>objects extra_args.
      link' objects (path_join h build_lib (name ext @ sfx)) extra_args
      = link_shared_object cc objects (path_join h build_lib (name ext @ sfx)) extra_args"
    using Cons.prems by simp
  have rest: "\<And>fs. BuildQExt_run h (cc\<lparr>link_shared_object := link'\<rparr>) build_lib build_temp
      define' q_arch' conf_link_args extensions fs
    = BuildQExt_run h cc build_lib build_temp define' q_arch' conf_link_args extensions fs"
    using Cons.IH Cons.prems by simp
  show ?case
    by (simp add: Let_def sfx md here rest split: sum.splits)
qed

text \<open>
  C9. For every extension that \<^verbatim>\<open>BuildQExt.run\<close> builds, the output file is the extension
  name with \<^verbatim>\<open>.dll\<close> appended when the platform is Windows and \<^verbatim>\<open>.so\<close> on every other
  platform, in the directory \<^verbatim>\<open>build_lib\<close>. This name is the output file name given to
  \<^verbatim>\<open>link_shared_object\<close> and the file recorded in \<^verbatim>\<open>data_files\<close>: the run ends without an
  exception exactly when, for every extension, the objects compiled from its sources
  are linked to that name without an exception, and then \<^verbatim>\<open>data_files\<close> has received
  that name for every extension, in order; a run ended by an exception has recorded the
  names of the extensions before the one that failed, and if that one was compiled, the
  exception is that of linking it to its name; and the linker is asked for no other
  name, since a linker that differs only on other names gives the same run.
\<close>

theorem BuildQExt_run_output_names:
  "let out = (\<lambda>ext. path_join h build_lib (name ext @ (if WINDOWS h then ''.dll'' else ''.so'')));
       record_out = (\<lambda>fs ext. add_data_file fs (path_join h ''q'' q_arch') (out ext));
       run = (\<lambda>cc. BuildQExt_run h cc build_lib build_temp define' q_arch' conf_link_args
                extensions data_files)
   in
   (run cc = (data_files', None) \<longleftrightarrow>
      (\<forall>ext \<in> set extensions. \<exists>options objects.
         remove_MD h cc = Inr options \<and>
         compile cc (sources ext) build_temp (py3k_define h define') (extra_compile_args ext)
           [''src/pyq''] options = Inr objects \<and>
         link_shared_object cc objects (out ext) (link_extra_args h conf_link_args ext)
           = Inr ()) \<and>
      data_files' = foldl record_out data_files extensions) \<and>
   (run cc = (data_files', Some e) \<longrightarrow>
      (\<exists>n < length extensions.
         data_files' = foldl record_out data_files (take n extensions) \<and>
         (\<forall>options objects.
            remove_MD h cc = Inr options \<longrightarrow>
            compile cc (sources (extensions ! n)) build_temp (py3k_define h define')
              (extra_compile_args (extensions ! n)) [''src/pyq''] options = Inr objects \<longrightarrow>
            link_shared_object cc objects (out (extensions ! n))
              (link_extra_args h conf_link_args (extensions ! n)) = Inl e))) \<and>
   ((\<forall>ext \<in> set extensions. \<forall>objects extra_args.
       link' objects (out ext) extra_args = link_shared_object cc objects (out ext) extra_args) \<longrightarrow>
      run (cc\<lparr>link_shared_object := link'\<rparr>) = run cc)"
  unfolding Let_def
proof (intro conjI impI)
  show "BuildQExt_run h cc build_lib build_temp define' q_arch' conf_link_args extensions
          data_files = (data_files', None) \<longleftrightarrow>
      (\<forall>ext \<in> set extensions. \<exists>options objects.
         remove_MD h cc = Inr options \<and>
         compile cc (sources ext) build_temp (py3k_define h define') (extra_compile_args ext)
           [''src/pyq''] options = Inr objects \<and>
         link_shared_object cc objects
           (path_join h build_lib (name ext @ (if WINDOWS h then ''.dll'' else ''.so'')))
           (link_extra_args h conf_link_args ext) = Inr ()) \<and>
      data_files' =
        foldl (\<lambda>fs ext. add_data_file fs (path_join h ''q'' q_arch')
                 (path_join h build_lib (name ext @ (if WINDOWS h then ''.dll'' else ''.so''))))
          data_files extensions"
    by (rule BuildQExt_run_success [OF refl])
next
  assume "BuildQExt_run h cc build_lib build_temp define' q_arch' conf_link_args extensions
            data_files = (data_files', Some e)"
  then show "\<exists>n < length extensions.
     data_files' =
       foldl (\<lambda>fs ext. add_data_file fs (path_join h ''q'' q_arch')
                (path_join h build_lib (name ext @ (if WINDOWS h then ''.dll'' else ''.so''))))
         data_files (take n extensions) \<and>
     (\<forall>options objects.
        remove_MD h cc = Inr options \<longrightarrow>
        compile cc (sources (extensions ! n)) build_temp (py3k_define h define')
          (extra_compile_args (extensions ! n)) [''src/pyq''] options = Inr objects \<longrightarrow>
        link_shared_object cc objects
          (path_join h build_lib
             (name (extensions ! n) @ (if WINDOWS h then ''.dll'' else ''.so'')))
          (link_extra_args h conf_link_args (extensions ! n)) = Inl e)"
    by (rule BuildQExt_run_raised [OF refl])
next
  assume "\<forall>ext \<in> set extensions. \<forall>objects extra_args.
      link' objects
        (path_join h build_lib (name ext @ (if WINDOWS h then ''.dll'' else ''.so''))) extra_args
      = link_shared_object cc objects
          (path_join h build_lib (name ext @ (if WINDOWS h then ''.dll'' else ''.so'')))
          extra_args"
  then show "BuildQExt_run h (cc\<lparr>link_shared_object := link'\<rparr>) build_lib build_temp define'
      q_arch' conf_link_args extensions data_files
    = BuildQExt_run h cc build_lib build_temp define' q_arch' conf_link_args extensions data_files"
    by (rule BuildQExt_run_linker [OF refl])
qed

theorem BuildQExt_run_output_names_witness:
  "BuildQExt_run darwin64 (only_linker ''build/qext/p.so'') ''build/qext'' ''build/temp''
     [(''KXVER'', ''3''), (''KXVER2'', ''6'')] ''m64'' [] [qext_p] []
     = ([(''q/m64'', [''build/qext/p.so''])], None) \<and>
   BuildQExt_run darwin64 (only_linker ''build/qext/p.dylib'') ''build/qext'' ''build/temp''
     [(''KXVER'', ''3''), (''KXVER2'', ''6'')] ''m64'' [] [qext_p] []
     = ([], Some LinkError) \<and>
   link_shared_object (only_linker ''build/qext/p.dylib'') [''src/pyq/p.c.o'']
     ''build/qext/p.so'' [] = Inl LinkError \<and>
   BuildQExt_run windows64 (only_linker (''build'' @ [CHR 0x5C] @ ''p.dll'')) ''build'' ''temp''
     [(''KXVER'', ''3''), (''KXVER2'', ''6'')] ''w64'' [] [qext_p] []
     = ([(''q'' @ [CHR 0x5C] @ ''w64'', [''build'' @ [CHR 0x5C] @ ''p.dll''])], None) \<and>
   BuildQExt_run windows64 (only_linker (''build'' @ [CHR 0x5C] @ ''p.so'')) ''build'' ''temp''
     [(''KXVER'', ''3''), (''KXVER2'', ''6'')] ''w64'' [] [qext_p] []
     = ([], Some LinkError) \<and>
   BuildQExt_run darwin64 any_compiler ''build/qext'' ''build/temp''
     [(''KXVER'', ''3''), (''KXVER2'', ''6'')] ''m64'' [] [qext_p] []
     = BuildQExt_run darwin64 (only_linker ''build/qext/p.so'') ''build/qext'' ''build/temp''
         [(''KXVER'', ''3''), (''KXVER2'', ''6'')] ''m64'' [] [qext_p] []"
proof -
  have mac: "\<not> WINDOWS darwin64" and win: "WINDOWS windows64"
    by (simp_all add: WINDOWS_def darwin64_def linux64_def windows64_def)
  have so: "path_join darwin64 ''build/qext'' (name qext_p @ ''.so'') = ''build/qext/p.so''"
    and m64: "path_join darwin64 ''q'' ''m64'' = ''q/m64''"
    by (simp_all add: darwin64_def linux64_def posix_join_def qext_p_def)
  have dll: "path_join windows64 ''build'' (name qext_p @ ''.dll'') = ''build'' @ [CHR 0x5C] @ ''p.dll''"
    and w64: "path_join windows64 ''q'' ''w64'' = ''q'' @ [CHR 0x5C] @ ''w64''"
    by (simp_all add: windows64_def nt_join_def qext_p_def)
  have objs: "\<And>out_name h options. compile (only_linker out_name) (sources qext_p) ''build/temp''
      (py3k_define h [(''KXVER'', ''3''), (''KXVER2'', ''6'')]) (extra_compile_args qext_p)
      [''src/pyq''] options = Inr [''src/pyq/p.c.o'']"
    and objs': "\<And>out_name h options. compile (only_linker out_name) (sources qext_p) ''temp''
      (py3k_define h [(''KXVER'', ''3''), (''KXVER2'', ''6'')]) (extra_compile_args qext_p)
      [''src/pyq''] options = Inr [''src/pyq/p.c.o'']"
    by (simp_all add: only_linker_def any_compiler_def qext_p_def)
  have md: "\<And>out_name. remove_MD darwin64 (only_linker out_name)
      = Inr [''/nologo'', ''/MD'', ''/W3'']"
    and md': "\<And>out_name. remove_MD windows64 (only_linker out_name) = Inr [''/nologo'', ''/W3'']"
    by (simp_all add: remove_MD_def mac win only_linker_def any_compiler_def)
  have link: "\<And>out_name objs out args. link_shared_object (only_linker out_name) objs out args
      = (if out = out_name then Inr () else Inl LinkError)"
    by (simp add: only_linker_def)
  have args: "link_extra_args darwin64 [] qext_p = []"
    by (simp add: link_extra_args_def mac)
  note t = BuildQExt_run_output_names [unfolded Let_def]
  have a: "BuildQExt_run darwin64 (only_linker ''build/qext/p.so'') ''build/qext'' ''build/temp''
     [(''KXVER'', ''3''), (''KXVER2'', ''6'')] ''m64'' [] [qext_p] []
     = ([(''q/m64'', [''build/qext/p.so''])], None)"
    by (rule t [THEN conjunct1, THEN iffD2]) (simp add: mac so m64 objs md link)
  have b: "BuildQExt_run darwin64 (only_linker ''build/qext/p.dylib'') ''build/qext'' ''build/temp''
     [(''KXVER'', ''3''), (''KXVER2'', ''6'')] ''m64'' [] [qext_p] []
     = ([], Some LinkError)"
    by (simp add: mac so m64 objs md link)
  have "\<exists>n < length [qext_p]. \<forall>options objects.
      remove_MD darwin64 (only_linker ''build/qext/p.dylib'') = Inr options \<longrightarrow>
      compile (only_linker ''build/qext/p.dylib'') (sources ([qext_p] ! n)) ''build/temp''
        (py3k_define darwin64 [(''KXVER'', ''3''), (''KXVER2'', ''6'')])
        (extra_compile_args ([qext_p] ! n)) [''src/pyq''] options = Inr objects \<longrightarrow>
      link_shared_object (only_linker ''build/qext/p.dylib'') objects
        (path_join darwin64 ''build/qext''
           (name ([qext_p] ! n) @ (if WINDOWS darwin64 then ''.dll'' else ''.so'')))
        (link_extra_args darwin64 [] ([qext_p] ! n)) = Inl LinkError"
    using t [THEN conjunct2, THEN conjunct1, THEN mp, OF b] by blast
  then have c: "link_shared_object (only_linker ''build/qext/p.dylib'') [''src/pyq/p.c.o'']
     ''build/qext/p.so'' [] = Inl LinkError"
    by (simp add: mac so objs md args)
  have d: "BuildQExt_run windows64 (only_linker (''build'' @ [CHR 0x5C] @ ''p.dll'')) ''build''
     ''temp'' [(''KXVER'', ''3''), (''KXVER2'', ''6'')] ''w64'' [] [qext_p] []
     = ([(''q'' @ [CHR 0x5C] @ ''w64'', [''build'' @ [CHR 0x5C] @ ''p.dll''])], None)"
    by (rule t [THEN conjunct1, THEN iffD2]) (simp add: win dll w64 objs' md' link)
  have e: "BuildQExt_run windows64 (only_linker (''build'' @ [CHR 0x5C] @ ''p.so'')) ''build''
     ''temp'' [(''KXVER'', ''3''), (''KXVER2'', ''6'')] ''w64'' [] [qext_p] []
     = ([], Some LinkError)"
    by (simp add: win dll w64 objs' md' link)
  have same: "(only_linker ''build/qext/p.so'')
       \<lparr>link_shared_object := link_shared_object any_compiler\<rparr> = any_compiler"
    by (simp add: only_linker_def)
  have "BuildQExt_run darwin64
     ((only_linker ''build/qext/p.so'')\<lparr>link_shared_object := link_shared_object any_compiler\<rparr>)
     ''build/qext'' ''build/temp'' [(''KXVER'', ''3''), (''KXVER2'', ''6'')] ''m64'' [] [qext_p] []
     = BuildQExt_run darwin64 (only_linker ''build/qext/p.so'') ''build/qext'' ''build/temp''
         [(''KXVER'', ''3''), (''KXVER2'', ''6'')] ''m64'' [] [qext_p] []"
    by (rule t [THEN conjunct2, THEN conjunct2, THEN mp])
       (simp add: mac so link any_compiler_def)
  then have f: "BuildQExt_run darwin64 any_compiler ''build/qext'' ''build/temp''
     [(''KXVER'', ''3''), (''KXVER2'', ''6'')] ''m64'' [] [qext_p] []
     = BuildQExt_run darwin64 (only_linker ''build/qext/p.so'') ''build/qext'' ''build/temp''
         [(''KXVER'', ''3''), (''KXVER2'', ''6'')] ''m64'' [] [qext_p] []"
    by (simp only: same)
  show ?thesis
    using a b c d e f by (intro conjI)
qed

end
